theory Spec2Isabelle
  imports Complex_Main
begin

section \<open>Python values as the program sees them\<close>

text \<open>
  A Python \<^verbatim>\<open>str\<close> is a sequence of Unicode code points, so it is modelled as a list of
  code points. \<open>ascii\<close> turns an ASCII literal into such a list.
\<close>

type_synonym ustr = "nat list"

definition ascii :: "string \<Rightarrow> ustr" where
  "ascii s = map of_char s"

text \<open>
  A Python \<^verbatim>\<open>float\<close>: the finite values are kept exact (a rational; rounding to binary64,
  overflow to infinity and the sign of zero are not modelled), the three special values are
  explicit.
\<close>

datatype pyfloat = Fin rat | PInf | NInf | NaN

text \<open>
  What \<^verbatim>\<open>json.loads\<close>, \<^verbatim>\<open>resp.json()\<close> and \<^verbatim>\<open>request.get_json\<close> hand to the program.
  \<open>JNull\<close> is Python's \<^verbatim>\<open>None\<close>. A dict is kept as its list of items; keys of a parsed
  dict are distinct, and a lookup takes the first item with the key.
\<close>

datatype json =
    JNull
  | JBool bool
  | JInt int
  | JFloat pyfloat
  | JStr ustr
  | JArr "json list"
  | JObj "(ustr \<times> json) list"

datatype py_error =
    AttributeError
  | TypeError
  | ValueError
  | KeyError
  | IndexError
  | OverflowError
  | JSONDecodeError
  | RequestException
  | APIError

subsection \<open>Float arithmetic used by the program\<close>

text \<open>\<^verbatim>\<open>x * n\<close> for a float \<open>x\<close> and an int \<open>n\<close> (the int is converted to float first).\<close>

fun fmul_int :: "pyfloat \<Rightarrow> int \<Rightarrow> pyfloat" where
  "fmul_int (Fin a) n = Fin (a * of_int n)"
| "fmul_int NaN n = NaN"
| "fmul_int PInf n = (if 0 < n then PInf else if n < 0 then NInf else NaN)"
| "fmul_int NInf n = (if 0 < n then NInf else if n < 0 then PInf else NaN)"

text \<open>\<^verbatim>\<open>x / 100000\<close> for a float \<open>x\<close>.\<close>

fun fdiv_100000 :: "pyfloat \<Rightarrow> pyfloat" where
  "fdiv_100000 (Fin a) = Fin (a / 100000)"
| "fdiv_100000 PInf = PInf"
| "fdiv_100000 NInf = NInf"
| "fdiv_100000 NaN = NaN"

text \<open>\<^verbatim>\<open>x <= 0\<close> and \<^verbatim>\<open>x > 0\<close> for a float \<open>x\<close>; both are false on NaN.\<close>

fun fle0 :: "pyfloat \<Rightarrow> bool" where
  "fle0 (Fin a) = (a \<le> 0)"
| "fle0 NInf = True"
| "fle0 PInf = False"
| "fle0 NaN = False"

fun fgt0 :: "pyfloat \<Rightarrow> bool" where
  "fgt0 (Fin a) = (0 < a)"
| "fgt0 PInf = True"
| "fgt0 NInf = False"
| "fgt0 NaN = False"

subsection \<open>String methods\<close>

text \<open>\<^verbatim>\<open>str.isspace\<close> on one code point: the Unicode whitespace characters.\<close>

definition py_isspace :: "nat \<Rightarrow> bool" where
  "py_isspace c \<longleftrightarrow>
     (9 \<le> c \<and> c \<le> 13) \<or> (28 \<le> c \<and> c \<le> 32) \<or> c = 133 \<or> c = 160 \<or> c = 5760 \<or>
     (8192 \<le> c \<and> c \<le> 8202) \<or> c = 8232 \<or> c = 8233 \<or> c = 8239 \<or> c = 8287 \<or> c = 12288"

text \<open>\<^verbatim>\<open>s.strip()\<close>\<close>

definition py_strip :: "ustr \<Rightarrow> ustr" where
  "py_strip s = rev (dropWhile py_isspace (rev (dropWhile py_isspace s)))"

text \<open>
  \<^verbatim>\<open>s.split()\<close>: the maximal runs of non-whitespace characters, in order. \<open>cur\<close> is the run
  being read.
\<close>

fun split_from :: "ustr \<Rightarrow> ustr \<Rightarrow> ustr list" where
  "split_from cur [] = (if cur = [] then [] else [cur])"
| "split_from cur (c # cs) =
     (if py_isspace c then (if cur = [] then split_from [] cs else cur # split_from [] cs)
      else split_from (cur @ [c]) cs)"

definition py_split :: "ustr \<Rightarrow> ustr list" where
  "py_split s = split_from [] s"

text \<open>\<^verbatim>\<open>xs[0]\<close> on a list: IndexError when it is empty.\<close>

definition first_item :: "'a list \<Rightarrow> py_error + 'a" where
  "first_item xs = (case xs of [] \<Rightarrow> Inl IndexError | x # _ \<Rightarrow> Inr x)"

text \<open>
  \<^verbatim>\<open>s.replace(old, new)\<close> for a non-empty \<open>old\<close>: every occurrence, left to right, without
  overlap. \<open>skip\<close> counts the characters of a matched occurrence still to be dropped.
\<close>

fun replace_from :: "ustr \<Rightarrow> ustr \<Rightarrow> nat \<Rightarrow> ustr \<Rightarrow> ustr" where
  "replace_from old new skip [] = []"
| "replace_from old new skip (c # cs) =
     (if 0 < skip then replace_from old new (skip - 1) cs
      else if take (length old) (c # cs) = old
           then new @ replace_from old new (length old - 1) cs
           else c # replace_from old new 0 cs)"

definition py_replace :: "ustr \<Rightarrow> ustr \<Rightarrow> ustr \<Rightarrow> ustr" where
  "py_replace s old new = replace_from old new 0 s"

text \<open>\<^verbatim>\<open>s.find(c)\<close> and \<^verbatim>\<open>s.rfind(c)\<close> for a one-character \<open>c\<close>: the index, or -1.\<close>

fun py_find :: "ustr \<Rightarrow> nat \<Rightarrow> int" where
  "py_find [] c = -1"
| "py_find (x # xs) c =
     (if x = c then 0 else (let r = py_find xs c in if r = -1 then -1 else r + 1))"

definition py_rfind :: "ustr \<Rightarrow> nat \<Rightarrow> int" where
  "py_rfind s c =
     (let r = py_find (rev s) c in if r = -1 then -1 else int (length s) - 1 - r)"

text \<open>\<^verbatim>\<open>s[a:b]\<close> with Python's clamping of the bounds (negative bounds count from the end).\<close>

definition slice_bound :: "nat \<Rightarrow> int \<Rightarrow> nat" where
  "slice_bound n i = (if i < 0 then nat (max 0 (int n + i)) else min n (nat i))"

definition py_slice :: "'a list \<Rightarrow> int \<Rightarrow> int \<Rightarrow> 'a list" where
  "py_slice s a b =
     (let lo = slice_bound (length s) a; hi = slice_bound (length s) b
      in take (hi - lo) (drop lo s))"

subsection \<open>Truth value, \<^verbatim>\<open>or\<close>, \<^verbatim>\<open>dict.get\<close>, subscripts\<close>

fun truthy :: "json \<Rightarrow> bool" where
  "truthy JNull = False"
| "truthy (JBool b) = b"
| "truthy (JInt n) = (n \<noteq> 0)"
| "truthy (JFloat x) = (x \<noteq> Fin 0)"
| "truthy (JStr s) = (s \<noteq> [])"
| "truthy (JArr xs) = (xs \<noteq> [])"
| "truthy (JObj kvs) = (kvs \<noteq> [])"

definition py_or :: "json \<Rightarrow> json \<Rightarrow> json" where
  "py_or x y = (if truthy x then x else y)"

text \<open>\<^verbatim>\<open>d.get(k, default)\<close>: only a dict has the method.\<close>

fun py_get :: "json \<Rightarrow> ustr \<Rightarrow> json \<Rightarrow> py_error + json" where
  "py_get (JObj kvs) k d = Inr (case map_of kvs k of None \<Rightarrow> d | Some v \<Rightarrow> v)"
| "py_get _ k d = Inl AttributeError"

text \<open>\<^verbatim>\<open>x[k]\<close> with a string key.\<close>

fun py_item :: "json \<Rightarrow> ustr \<Rightarrow> py_error + json" where
  "py_item (JObj kvs) k = (case map_of kvs k of None \<Rightarrow> Inl KeyError | Some v \<Rightarrow> Inr v)"
| "py_item _ k = Inl TypeError"

text \<open>\<^verbatim>\<open>x[0]\<close>: a dict parsed from JSON has string keys only, so 0 is never a key.\<close>

fun py_item0 :: "json \<Rightarrow> py_error + json" where
  "py_item0 (JArr xs) = first_item xs"
| "py_item0 (JStr s) = (case s of [] \<Rightarrow> Inl IndexError | c # _ \<Rightarrow> Inr (JStr [c]))"
| "py_item0 (JObj kvs) = Inl KeyError"
| "py_item0 _ = Inl TypeError"

text \<open>\<^verbatim>\<open>x[:60]\<close>\<close>

fun py_prefix60 :: "json \<Rightarrow> py_error + json" where
  "py_prefix60 (JStr s) = Inr (JStr (py_slice s 0 60))"
| "py_prefix60 (JArr xs) = Inr (JArr (py_slice xs 0 60))"
| "py_prefix60 _ = Inl TypeError"

subsection \<open>\<^verbatim>\<open>float(...)\<close> and \<^verbatim>\<open>int(...)\<close>\<close>

definition is_digit :: "nat \<Rightarrow> bool" where
  "is_digit c \<longleftrightarrow> 48 \<le> c \<and> c \<le> 57"

text \<open>The value of a run of ASCII digits, most significant first.\<close>

definition digits_value :: "ustr \<Rightarrow> nat" where
  "digits_value ds = foldl (\<lambda>acc d. 10 * acc + (d - 48)) 0 ds"

text \<open>
  Underscores in a numeric literal: each one stands between two digits. \<open>prev\<close> is the
  character before the current one (0 at the start).
\<close>

fun underscores_ok :: "nat \<Rightarrow> ustr \<Rightarrow> bool" where
  "underscores_ok prev [] = (prev \<noteq> 95)"
| "underscores_ok prev (c # cs) =
     (if c = 95 then is_digit prev \<and> underscores_ok c cs
      else if prev = 95 then is_digit c \<and> underscores_ok c cs
      else underscores_ok c cs)"

definition drop_underscores :: "ustr \<Rightarrow> ustr option" where
  "drop_underscores s = (if underscores_ok 0 s then Some (filter (\<lambda>c. c \<noteq> 95) s) else None)"

text \<open>An optional sign: the sign as \<open>1\<close> or \<open>-1\<close>, and the rest.\<close>

definition take_sign :: "ustr \<Rightarrow> int \<times> ustr" where
  "take_sign s =
     (case s of [] \<Rightarrow> (1, [])
      | c # cs \<Rightarrow> if c = 45 then (-1, cs) else if c = 43 then (1, cs) else (1, c # cs))"

text \<open>ASCII lower case, for the case-insensitive words \<^verbatim>\<open>inf\<close>, \<^verbatim>\<open>infinity\<close>, \<^verbatim>\<open>nan\<close>.\<close>

definition lower :: "ustr \<Rightarrow> ustr" where
  "lower s = map (\<lambda>c. if 65 \<le> c \<and> c \<le> 90 then c + 32 else c) s"

text \<open>
  An exponent part: empty, or \<^verbatim>\<open>e\<close>/\<^verbatim>\<open>E\<close>, an optional sign and at least one digit, up to
  the end of the text.
\<close>

definition parse_exponent :: "ustr \<Rightarrow> int option" where
  "parse_exponent s =
     (case s of [] \<Rightarrow> Some 0
      | c # cs \<Rightarrow>
          if c = 101 \<or> c = 69
          then (let (sg, ds) = take_sign cs
                in if ds \<noteq> [] \<and> list_all is_digit ds then Some (sg * int (digits_value ds))
                   else None)
          else None)"

definition pow10 :: "int \<Rightarrow> rat" where
  "pow10 e = (if 0 \<le> e then 10 ^ nat e else 1 / 10 ^ nat (- e))"

text \<open>
  An unsigned decimal number: digits, an optional point with digits, at least one digit in
  all, then the exponent part.
\<close>

definition parse_decimal :: "ustr \<Rightarrow> rat option" where
  "parse_decimal s =
     (let ip = takeWhile is_digit s; r1 = dropWhile is_digit s;
          (fp, r2) = (case r1 of [] \<Rightarrow> ([], [])
                      | c # cs \<Rightarrow> if c = 46 then (takeWhile is_digit cs, dropWhile is_digit cs)
                                  else ([], c # cs))
      in if ip = [] \<and> fp = [] then None
         else (case parse_exponent r2 of None \<Rightarrow> None
               | Some e \<Rightarrow>
                   Some (of_nat (digits_value (ip @ fp)) / 10 ^ length fp * pow10 e)))"

text \<open>
  \<^verbatim>\<open>float(s)\<close> for a string: surrounding whitespace is dropped, then an optional sign and
  \<^verbatim>\<open>inf\<close>, \<^verbatim>\<open>infinity\<close>, \<^verbatim>\<open>nan\<close> or a decimal number; anything else is a ValueError.
  Only ASCII digits are read as digits.
\<close>

definition float_of_str :: "ustr \<Rightarrow> py_error + pyfloat" where
  "float_of_str s =
     (case drop_underscores (py_strip s) of None \<Rightarrow> Inl ValueError
      | Some t \<Rightarrow>
          (let (sg, body) = take_sign t
           in if lower body = ascii ''inf'' \<or> lower body = ascii ''infinity''
              then Inr (if sg = 1 then PInf else NInf)
              else if lower body = ascii ''nan'' then Inr NaN
              else (case parse_decimal body of None \<Rightarrow> Inl ValueError
                    | Some r \<Rightarrow> Inr (Fin (of_int sg * r)))))"

text \<open>\<^verbatim>\<open>float(v)\<close>\<close>

fun py_float :: "json \<Rightarrow> py_error + pyfloat" where
  "py_float (JFloat x) = Inr x"
| "py_float (JInt n) = Inr (Fin (of_int n))"
| "py_float (JBool b) = Inr (Fin (if b then 1 else 0))"
| "py_float (JStr s) = float_of_str s"
| "py_float _ = Inl TypeError"

text \<open>
  \<^verbatim>\<open>int(s)\<close> for a string, base 10: surrounding whitespace is dropped, then an optional sign
  and at least one digit.
\<close>

definition int_of_str :: "ustr \<Rightarrow> py_error + int" where
  "int_of_str s =
     (let (sg, body) = take_sign (py_strip s)
      in case drop_underscores body of None \<Rightarrow> Inl ValueError
         | Some ds \<Rightarrow>
             if ds \<noteq> [] \<and> list_all is_digit ds then Inr (sg * int (digits_value ds))
             else Inl ValueError)"

text \<open>\<^verbatim>\<open>int(v)\<close>: a float is truncated towards zero.\<close>

fun py_int :: "json \<Rightarrow> py_error + int" where
  "py_int (JInt n) = Inr n"
| "py_int (JBool b) = Inr (if b then 1 else 0)"
| "py_int (JFloat (Fin r)) = Inr (if 0 \<le> r then \<lfloor>r\<rfloor> else \<lceil>r\<rceil>)"
| "py_int (JFloat NaN) = Inl ValueError"
| "py_int (JFloat _) = Inl OverflowError"
| "py_int (JStr s) = int_of_str s"
| "py_int _ = Inl TypeError"

section \<open>The outside world of one request\<close>

text \<open>
  What BeautifulSoup finds on a search page: the first \<^verbatim>\<open>.product-card\<close>, if any, with the
  stripped text of its title element (\<^verbatim>\<open>.product-title\<close> on Wilcon, \<^verbatim>\<open>.product-name\<close> on
  ACE) and of its \<^verbatim>\<open>.price\<close> element, each absent when \<^verbatim>\<open>select_one\<close> returns \<^verbatim>\<open>None\<close>.
\<close>

record card =
  title_el :: "ustr option"
  price_el :: "ustr option"

text \<open>
  The outcome of \<^verbatim>\<open>requests.get\<close> followed by \<^verbatim>\<open>raise_for_status\<close> and the parse:
  an exception, or the page.
\<close>

datatype page = Failed py_error | Page "card option"

text \<open>
  Everything the handler reads from outside, as functions of the searched item:
  the two shop sites, the Shopee API (the value of \<^verbatim>\<open>resp.json()\<close>, or the exception
  raised before it), and the chat completion (the \<^verbatim>\<open>content\<close> of the first choice, which
  may be \<^verbatim>\<open>None\<close>, or the exception raised by the call). Two library functions are part of
  it: \<open>json_loads\<close> is \<^verbatim>\<open>json.loads\<close> on a text that starts with \<^verbatim>\<open>[\<close> (where a successful
  parse is always an array; \<open>None\<close> stands for JSONDecodeError), and \<open>py_format\<close> is the text
  an f-string gives for a value that is not a string.
\<close>

record env =
  wilcon_site :: "ustr \<Rightarrow> page"
  ace_site :: "ustr \<Rightarrow> page"
  shopee_api :: "ustr \<Rightarrow> py_error + json"
  openai_chat :: "ustr \<Rightarrow> py_error + ustr option"
  json_loads :: "ustr \<Rightarrow> json list option"
  py_format :: "json \<Rightarrow> ustr"

text \<open>The calls that leave the process, in the order they are made.\<close>

datatype call = CallWilcon ustr | CallAce ustr | CallShopee ustr | CallAI ustr

section \<open>Quotes\<close>

text \<open>The dict an adapter returns, and the dict of the result list.\<close>

record listing =
  store :: json
  address :: json
  unit_price :: pyfloat
  confidence :: json
  source :: ustr

record quote = listing +
  quantity :: int
  total_price :: pyfloat

section \<open>Helper functions: one top item per shop\<close>

text \<open>
  The two non-ASCII string literals of the source file, as the file has them:
  the text removed from a price is the three characters U+00E2 U+201A U+00B1, and the
  separator in a store name is U+00E2 U+20AC U+201C. \<open>peso_sign\<close> is the currency sign
  U+20B1 itself, which the source file does not contain.
\<close>

definition price_prefix :: ustr where
  "price_prefix = [226, 8218, 177]"

definition name_separator :: ustr where
  "name_separator = [226, 8364, 8220]"

definition peso_sign :: ustr where
  "peso_sign = [8369]"

text \<open>
  \<^verbatim>\<open>float(price_text.replace("...", "").replace(",", "").split()[0])\<close>,
  the same line in \<^verbatim>\<open>fetch_price_ace\<close> and \<^verbatim>\<open>fetch_price_wilcon\<close>.
\<close>

definition parse_price_text :: "ustr \<Rightarrow> py_error + pyfloat" where
  "parse_price_text price_text =
     (case first_item (py_split (py_replace (py_replace price_text price_prefix []) (ascii '','') []))
      of Inl e \<Rightarrow> Inl e
      | Inr tok \<Rightarrow> float_of_str tok)"

definition fetch_price_ace :: "env \<Rightarrow> ustr \<Rightarrow> listing option" where
  "fetch_price_ace env item_keywords =
     (case ace_site env item_keywords of
        Failed e \<Rightarrow> None
      | Page None \<Rightarrow> None
      | Page (Some c) \<Rightarrow>
          (let title = (case title_el c of Some t \<Rightarrow> t | None \<Rightarrow> item_keywords)
           in case price_el c of
                None \<Rightarrow> None
              | Some price_text \<Rightarrow>
                  (case parse_price_text price_text of
                     Inl e \<Rightarrow> None
                   | Inr price \<Rightarrow>
                       Some \<lparr>store = JStr (ascii ''ACE Hardware '' @ name_separator @ ascii '' '' @ title),
                             address = JStr (ascii ''Various ACE branches in Metro Manila''),
                             unit_price = price,
                             confidence = JStr (ascii ''high''),
                             source = ascii ''ACE''\<rparr>)))"

definition fetch_price_wilcon :: "env \<Rightarrow> ustr \<Rightarrow> listing option" where
  "fetch_price_wilcon env item_keywords =
     (case wilcon_site env item_keywords of
        Failed e \<Rightarrow> None
      | Page None \<Rightarrow> None
      | Page (Some c) \<Rightarrow>
          (let title = (case title_el c of Some t \<Rightarrow> t | None \<Rightarrow> item_keywords)
           in case price_el c of
                None \<Rightarrow> None
              | Some price_text \<Rightarrow>
                  (case parse_price_text price_text of
                     Inl e \<Rightarrow> None
                   | Inr price \<Rightarrow>
                       Some \<lparr>store = JStr (ascii ''Wilcon Depot '' @ name_separator @ ascii '' '' @ title),
                             address = JStr (ascii ''Various Wilcon branches in Metro Manila''),
                             unit_price = price,
                             confidence = JStr (ascii ''high''),
                             source = ascii ''Wilcon''\<rparr>)))"

text \<open>\<^verbatim>\<open>v / 100000\<close>: true division of an int, a float or a bool; a TypeError otherwise.\<close>

fun shopee_price :: "json \<Rightarrow> py_error + pyfloat" where
  "shopee_price (JInt n) = Inr (Fin (of_int n / 100000))"
| "shopee_price (JFloat x) = Inr (fdiv_100000 x)"
| "shopee_price (JBool b) = Inr (Fin ((if b then 1 else 0) / 100000))"
| "shopee_price _ = Inl TypeError"

text \<open>The text of \<^verbatim>\<open>{name[:60]}\<close> inside the f-string.\<close>

definition format_name :: "env \<Rightarrow> json \<Rightarrow> ustr" where
  "format_name env v = (case v of JStr s \<Rightarrow> s | _ \<Rightarrow> py_format env v)"

text \<open>
  The body of the \<^verbatim>\<open>try\<close> block of \<^verbatim>\<open>fetch_price_shopee\<close> once \<^verbatim>\<open>resp.json()\<close> has
  returned \<open>data\<close>: an exception anywhere in it is an \<open>Inl\<close>.
\<close>

definition shopee_listing :: "env \<Rightarrow> ustr \<Rightarrow> json \<Rightarrow> py_error + listing option" where
  "shopee_listing env item_keywords data =
     (case py_get data (ascii ''items'') JNull of Inl e \<Rightarrow> Inl e
      | Inr items \<Rightarrow>
          if \<not> truthy items then Inr None
          else (case py_item0 items of Inl e \<Rightarrow> Inl e
          | Inr first \<Rightarrow>
          (case py_item first (ascii ''item_basic'') of Inl e \<Rightarrow> Inl e
          | Inr item \<Rightarrow>
          (case py_get item (ascii ''name'') (JStr item_keywords) of Inl e \<Rightarrow> Inl e
          | Inr name \<Rightarrow>
          (case py_get item (ascii ''price'') (JInt 0) of Inl e \<Rightarrow> Inl e
          | Inr raw \<Rightarrow>
          (case shopee_price raw of Inl e \<Rightarrow> Inl e
          | Inr price \<Rightarrow>
              if fle0 price then Inr None
              else (case py_prefix60 name of Inl e \<Rightarrow> Inl e
              | Inr short \<Rightarrow>
                  Inr (Some \<lparr>store = JStr (ascii ''Shopee '' @ name_separator @ ascii '' ''
                                             @ format_name env short),
                             address = JStr (ascii ''Online / Philippines''),
                             unit_price = price,
                             confidence = JStr (ascii ''high''),
                             source = ascii ''Shopee''\<rparr>))))))))"

definition fetch_price_shopee :: "env \<Rightarrow> ustr \<Rightarrow> listing option" where
  "fetch_price_shopee env item_keywords =
     (case shopee_api env item_keywords of
        Inl e \<Rightarrow> None
      | Inr data \<Rightarrow> (case shopee_listing env item_keywords data of Inl e \<Rightarrow> None | Inr r \<Rightarrow> r))"

section \<open>Main store fetcher: \<^verbatim>\<open>get_stores\<close>\<close>

text \<open>What the handler sends back: 200 with the stores, 400 with a message, 500 with the
  exception that reached the outer \<^verbatim>\<open>except\<close>.\<close>

datatype response = Stores "quote list" | BadRequest ustr | ServerError py_error

text \<open>\<^verbatim>\<open>v.strip()\<close>: only a string has the method.\<close>

fun strip_value :: "json \<Rightarrow> py_error + ustr" where
  "strip_value (JStr s) = Inr (py_strip s)"
| "strip_value _ = Inl AttributeError"

text \<open>\<^verbatim>\<open>item = (data.get("item") or "").strip()\<close>\<close>

definition read_item :: "json \<Rightarrow> py_error + ustr" where
  "read_item data =
     (case py_get data (ascii ''item'') JNull of Inl e \<Rightarrow> Inl e
      | Inr item_value \<Rightarrow> strip_value (py_or item_value (JStr [])))"

text \<open>\<^verbatim>\<open>quantity = int(data.get("quantity") or 1)\<close>\<close>

definition read_quantity :: "json \<Rightarrow> py_error + int" where
  "read_quantity data =
     (case py_get data (ascii ''quantity'') JNull of Inl e \<Rightarrow> Inl e
      | Inr quantity_value \<Rightarrow> py_int (py_or quantity_value (JInt 1)))"

text \<open>
  The first three statements of the handler, on the value \<open>body\<close> that
  \<^verbatim>\<open>request.get_json(silent=True)\<close> returned: \<^verbatim>\<open>data = body or {}\<close>, then the item, then
  the quantity.
\<close>

definition read_request :: "json \<Rightarrow> py_error + ustr \<times> int" where
  "read_request body =
     (let data = py_or body (JObj [])
      in case read_item data of Inl e \<Rightarrow> Inl e
         | Inr item \<Rightarrow>
             (case read_quantity data of Inl e \<Rightarrow> Inl e
              | Inr qty \<Rightarrow> Inr (item, qty)))"

text \<open>
  \<^verbatim>\<open>res["quantity"] = quantity; res["total_price"] = float(res["unit_price"]) * quantity\<close>
\<close>

definition stamp :: "int \<Rightarrow> listing \<Rightarrow> quote" where
  "stamp qty res =
     \<lparr>store = store res, address = address res, unit_price = unit_price res,
      confidence = confidence res, source = source res,
      quantity = qty, total_price = fmul_int (unit_price res) qty\<rparr>"

text \<open>The list the first loop runs over, each function with the call it makes.\<close>

definition fetch_funcs :: "((ustr \<Rightarrow> call) \<times> (env \<Rightarrow> ustr \<Rightarrow> listing option)) list" where
  "fetch_funcs =
     [(CallWilcon, fetch_price_wilcon), (CallAce, fetch_price_ace), (CallShopee, fetch_price_shopee)]"

text \<open>
  The first loop: call the function, append a result that is there, leave the loop once
  three results are held. It returns the results and the calls made.
\<close>

fun adapter_loop ::
  "env \<Rightarrow> ustr \<Rightarrow> int \<Rightarrow> ((ustr \<Rightarrow> call) \<times> (env \<Rightarrow> ustr \<Rightarrow> listing option)) list
     \<Rightarrow> quote list \<Rightarrow> call list \<Rightarrow> quote list \<times> call list" where
  "adapter_loop env item qty [] results calls = (results, calls)"
| "adapter_loop env item qty ((tag, fetch_func) # rest) results calls =
     (let res = fetch_func env item;
          calls' = calls @ [tag item];
          results' = (case res of Some r \<Rightarrow> results @ [stamp qty r] | None \<Rightarrow> results)
      in if 3 \<le> length results' then (results', calls')
         else adapter_loop env item qty rest results' calls')"

text \<open>
  The extraction of the array from the reply: \<^verbatim>\<open>find("[")\<close>, \<^verbatim>\<open>rfind("]")\<close>, and
  \<^verbatim>\<open>json.loads\<close> of the slice when both are found in this order.
\<close>

definition extract_ai_stores :: "(ustr \<Rightarrow> json list option) \<Rightarrow> ustr \<Rightarrow> py_error + json list" where
  "extract_ai_stores loads ai_str =
     (let start = py_find ai_str 91; stop = py_rfind ai_str 93
      in if start \<noteq> -1 \<and> stop \<noteq> -1 \<and> start < stop
         then (case loads (py_slice ai_str start (stop + 1)) of
                 None \<Rightarrow> Inl JSONDecodeError
               | Some ai_stores \<Rightarrow> Inr ai_stores)
         else Inr [])"

text \<open>\<^verbatim>\<open>float(s.get("price", 0))\<close>, the body of the inner \<^verbatim>\<open>try\<close>.\<close>

definition ai_price :: "json \<Rightarrow> py_error + pyfloat" where
  "ai_price s = (case py_get s (ascii ''price'') (JInt 0) of Inl e \<Rightarrow> Inl e | Inr v \<Rightarrow> py_float v)"

text \<open>The inner \<^verbatim>\<open>try\<close> with its bare \<^verbatim>\<open>except\<close>: any exception sets the price to 0.\<close>

definition price_or_zero :: "json \<Rightarrow> pyfloat" where
  "price_or_zero s = (case ai_price s of Inl e \<Rightarrow> Fin 0 | Inr p \<Rightarrow> p)"

text \<open>The dict appended for an entry \<open>s\<close> of the reply.\<close>

definition ai_quote :: "json \<Rightarrow> pyfloat \<Rightarrow> int \<Rightarrow> py_error + quote" where
  "ai_quote s price qty =
     (case py_get s (ascii ''store'') (JStr (ascii ''Unknown Store'')) of Inl e \<Rightarrow> Inl e
      | Inr st \<Rightarrow>
      (case py_get s (ascii ''address'') (JStr (ascii ''Manila'')) of Inl e \<Rightarrow> Inl e
      | Inr ad \<Rightarrow>
      (case py_get s (ascii ''confidence'') (JStr (ascii ''medium'')) of Inl e \<Rightarrow> Inl e
      | Inr cf \<Rightarrow>
          Inr \<lparr>store = st, address = ad, unit_price = price, confidence = cf,
               source = ascii ''AI'', quantity = qty, total_price = fmul_int price qty\<rparr>)))"

text \<open>The second loop, over the entries of the reply.\<close>

fun ai_merge :: "int \<Rightarrow> quote list \<Rightarrow> json list \<Rightarrow> py_error + quote list" where
  "ai_merge qty results [] = Inr results"
| "ai_merge qty results (s # rest) =
     (if 3 \<le> length results then Inr results
      else (let price = price_or_zero s
            in if fle0 price then ai_merge qty results rest
               else (case ai_quote s price qty of Inl e \<Rightarrow> Inl e
                     | Inr q \<Rightarrow> ai_merge qty (results @ [q]) rest)))"

text \<open>
  The body of \<^verbatim>\<open>if len(results) < 3\<close>: the chat completion,
  \<^verbatim>\<open>ai_str = (content or "").strip()\<close>, the extraction and the second loop.
\<close>

definition ai_fallback :: "env \<Rightarrow> ustr \<Rightarrow> int \<Rightarrow> quote list \<Rightarrow> py_error + quote list" where
  "ai_fallback env item qty results =
     (case openai_chat env item of Inl e \<Rightarrow> Inl e
      | Inr content \<Rightarrow>
          (let ai_str = py_strip (case content of None \<Rightarrow> [] | Some c \<Rightarrow> c)
           in case extract_ai_stores (json_loads env) ai_str of Inl e \<Rightarrow> Inl e
              | Inr ai_stores \<Rightarrow> ai_merge qty results ai_stores))"

text \<open>
  The handler from \<^verbatim>\<open>results = []\<close> to the end of the AI fallback: the result list
  before \<^verbatim>\<open>results[:3]\<close>, or the exception, and the calls made.
\<close>

definition aggregate :: "env \<Rightarrow> ustr \<Rightarrow> int \<Rightarrow> (py_error + quote list) \<times> call list" where
  "aggregate env item qty =
     (let (results, calls) = adapter_loop env item qty fetch_funcs [] []
      in if length results < 3 then (ai_fallback env item qty results, calls @ [CallAI item])
         else (Inr results, calls))"

text \<open>The whole handler: the response and the calls made on the way.\<close>

definition get_stores :: "env \<Rightarrow> json \<Rightarrow> response \<times> call list" where
  "get_stores env body =
     (case read_request body of
        Inl e \<Rightarrow> (ServerError e, [])
      | Inr (item, qty) \<Rightarrow>
          if item = [] then (BadRequest (ascii ''Item is required''), [])
          else (case aggregate env item qty of
                  (Inl e, calls) \<Rightarrow> (ServerError e, calls)
                | (Inr results, calls) \<Rightarrow> (Stores (py_slice results 0 3), calls)))"



section \<open>Concrete requests and environments\<close>

text \<open>Every shop unreachable, an empty reply from the AI provider, no parsable JSON.\<close>

definition env_offline :: env where
  "env_offline =
     \<lparr>wilcon_site = (\<lambda>item. Failed RequestException),
      ace_site = (\<lambda>item. Failed RequestException),
      shopee_api = (\<lambda>item. Inl RequestException),
      openai_chat = (\<lambda>item. Inr None),
      json_loads = (\<lambda>text. None),
      py_format = (\<lambda>v. [])\<rparr>"

text \<open>A search page whose first product card has no title element and the given price text.\<close>

definition priced_page :: "ustr \<Rightarrow> page" where
  "priced_page price_text = Page (Some \<lparr>title_el = None, price_el = Some price_text\<rparr>)"

text \<open>A Shopee reply with one item of the given raw price.\<close>

definition shopee_reply :: "int \<Rightarrow> json" where
  "shopee_reply raw =
     JObj [(ascii ''items'',
            JArr [JObj [(ascii ''item_basic'',
                         JObj [(ascii ''name'', JStr (ascii ''Nails'')),
                               (ascii ''price'', JInt raw)])]])]"

text \<open>The request \<^verbatim>\<open>{"item": "nails"}\<close>, and the same with a quantity.\<close>

definition body_nails :: json where
  "body_nails = JObj [(ascii ''item'', JStr (ascii ''nails''))]"

definition body_nails_qty :: "json \<Rightarrow> json" where
  "body_nails_qty q = JObj [(ascii ''item'', JStr (ascii ''nails'')), (ascii ''quantity'', q)]"

text \<open>Wilcon lists the item at the price text \<^verbatim>\<open>0.00\<close>; nothing else answers.\<close>

definition env_wilcon_free :: env where
  "env_wilcon_free = env_offline\<lparr>wilcon_site := (\<lambda>item. priced_page (ascii ''0.00''))\<rparr>"


text \<open>All three shops list the item.\<close>

definition env_all_shops :: env where
  "env_all_shops =
     env_offline\<lparr>wilcon_site := (\<lambda>item. priced_page (ascii ''10'')),
                 ace_site := (\<lambda>item. priced_page (ascii ''12.50'')),
                 shopee_api := (\<lambda>item. Inr (shopee_reply 123450000))\<rparr>"

text \<open>The AI provider replies with the given text; \<^verbatim>\<open>json.loads\<close> rejects every text.\<close>

definition env_reply :: "ustr \<Rightarrow> env" where
  "env_reply text = env_offline\<lparr>openai_chat := (\<lambda>item. Inr (Some text))\<rparr>"

text \<open>The quotes these environments give for the item \<^verbatim>\<open>nails\<close>.\<close>

definition wilcon_quote :: "pyfloat \<Rightarrow> int \<Rightarrow> pyfloat \<Rightarrow> quote" where
  "wilcon_quote price qty tot =
     \<lparr>store = JStr (ascii ''Wilcon Depot '' @ name_separator @ ascii '' nails''),
      address = JStr (ascii ''Various Wilcon branches in Metro Manila''),
      unit_price = price, confidence = JStr (ascii ''high''), source = ascii ''Wilcon'',
      quantity = qty, total_price = tot\<rparr>"

definition ace_quote :: "pyfloat \<Rightarrow> int \<Rightarrow> pyfloat \<Rightarrow> quote" where
  "ace_quote price qty tot =
     \<lparr>store = JStr (ascii ''ACE Hardware '' @ name_separator @ ascii '' nails''),
      address = JStr (ascii ''Various ACE branches in Metro Manila''),
      unit_price = price, confidence = JStr (ascii ''high''), source = ascii ''ACE'',
      quantity = qty, total_price = tot\<rparr>"

definition shopee_quote :: "pyfloat \<Rightarrow> int \<Rightarrow> pyfloat \<Rightarrow> quote" where
  "shopee_quote price qty tot =
     \<lparr>store = JStr (ascii ''Shopee '' @ name_separator @ ascii '' Nails''),
      address = JStr (ascii ''Online / Philippines''),
      unit_price = price, confidence = JStr (ascii ''high''), source = ascii ''Shopee'',
      quantity = qty, total_price = tot\<rparr>"

definition ai_quote_defaults :: "pyfloat \<Rightarrow> int \<Rightarrow> pyfloat \<Rightarrow> quote" where
  "ai_quote_defaults price qty tot =
     \<lparr>store = JStr (ascii ''Unknown Store''), address = JStr (ascii ''Manila''),
      unit_price = price, confidence = JStr (ascii ''medium''), source = ascii ''AI'',
      quantity = qty, total_price = tot\<rparr>"

text \<open>The calls of a request for \<^verbatim>\<open>nails\<close> that reaches the AI provider.\<close>

definition all_four_calls :: "call list" where
  "all_four_calls =
     [CallWilcon (ascii ''nails''), CallAce (ascii ''nails''), CallShopee (ascii ''nails''),
      CallAI (ascii ''nails'')]"

text \<open>Wilcon and ACE show the price text \<^verbatim>\<open>1,234.50\<close> behind the sign U+20B1.\<close>

definition env_peso :: env where
  "env_peso =
     env_offline\<lparr>wilcon_site := (\<lambda>item. priced_page (peso_sign @ ascii ''1,234.50'')),
                 ace_site := (\<lambda>item. priced_page (peso_sign @ ascii ''1,234.50''))\<rparr>"

text \<open>The request \<^verbatim>\<open>{"item": "  ", "quantity": q}\<close> and the request \<^verbatim>\<open>{"item": "  "}\<close>.\<close>

definition body_blank_qty :: "json \<Rightarrow> json" where
  "body_blank_qty q = JObj [(ascii ''item'', JStr (ascii ''  '')), (ascii ''quantity'', q)]"

definition body_blank :: json where
  "body_blank = JObj [(ascii ''item'', JStr (ascii ''  ''))]"

section \<open>Properties of the string helpers and of the two loops\<close>

lemma py_slice_0_3: "py_slice xs 0 3 = take 3 xs"
  by (simp add: py_slice_def slice_bound_def min_def)




lemma adapter_loop_length:
  "length results < 3 \<Longrightarrow> length (fst (adapter_loop env item qty fs results calls)) \<le> 3"
proof (induction fs arbitrary: results calls)
  case Nil
  then show ?case by simp
next
  case (Cons p fs)
  obtain tag f where p: "p = (tag, f)" by (cases p)
  show ?case
  proof (cases "f env item")
    case None
    then show ?thesis using Cons p by (simp add: Let_def)
  next
    case (Some r)
    then show ?thesis using Cons p by (simp add: Let_def)
  qed
qed





lemma price_or_zero_dict: "\<not> fle0 (price_or_zero s) \<Longrightarrow> \<exists>kvs. s = JObj kvs"
  by (cases s) (simp_all add: price_or_zero_def ai_price_def)

lemma ai_quote_ok:
  assumes "\<not> fle0 (price_or_zero s)"
  shows "\<exists>q. ai_quote s price qty = Inr q \<and> quantity q = qty \<and> unit_price q = price
            \<and> total_price q = fmul_int price qty"
proof -
  obtain kvs where "s = JObj kvs" using price_or_zero_dict [OF assms] by blast
  then show ?thesis by (simp add: ai_quote_def)
qed



lemma ai_merge_length:
  "length results \<le> 3 \<Longrightarrow> ai_merge qty results ss = Inr rs \<Longrightarrow> length rs \<le> 3"
proof (induction ss arbitrary: results)
  case Nil
  then show ?case by simp
next
  case (Cons s ss)
  show ?case
  proof (cases "3 \<le> length results")
    case True
    then show ?thesis using Cons.prems by simp
  next
    case False
    show ?thesis
    proof (cases "fle0 (price_or_zero s)")
      case True
      then have "ai_merge qty results ss = Inr rs" using False Cons.prems(2) by (simp add: Let_def)
      with Cons.prems(1) show ?thesis by (rule Cons.IH)
    next
      case nonpos: False
      then obtain q where q: "ai_quote s (price_or_zero s) qty = Inr q"
        using ai_quote_ok [of s "price_or_zero s" qty] by blast
      have "length (results @ [q]) \<le> 3" using False by simp
      moreover have "ai_merge qty (results @ [q]) ss = Inr rs"
        using Cons.prems(2) False nonpos q by (simp add: Let_def)
      ultimately show ?thesis by (rule Cons.IH)
    qed
  qed
qed

lemma ai_merge_all:
  assumes "\<And>s q. \<not> fle0 (price_or_zero s) \<Longrightarrow> ai_quote s (price_or_zero s) qty = Inr q \<Longrightarrow> P q"
  shows "\<forall>q\<in>set results. P q \<Longrightarrow> ai_merge qty results ss = Inr rs \<Longrightarrow> \<forall>q\<in>set rs. P q"
proof (induction ss arbitrary: results)
  case Nil
  then show ?case by simp
next
  case (Cons s ss)
  show ?case
  proof (cases "3 \<le> length results")
    case True
    then show ?thesis using Cons.prems by simp
  next
    case False
    show ?thesis
    proof (cases "fle0 (price_or_zero s)")
      case True
      then have "ai_merge qty results ss = Inr rs" using False Cons.prems(2) by (simp add: Let_def)
      with Cons.prems(1) show ?thesis by (rule Cons.IH)
    next
      case nonpos: False
      then obtain q where q: "ai_quote s (price_or_zero s) qty = Inr q"
        using ai_quote_ok [of s "price_or_zero s" qty] by blast
      have "\<forall>x\<in>set (results @ [q]). P x" using Cons.prems(1) assms [OF nonpos q] by simp
      moreover have "ai_merge qty (results @ [q]) ss = Inr rs"
        using Cons.prems(2) False nonpos q by (simp add: Let_def)
      ultimately show ?thesis by (rule Cons.IH)
    qed
  qed
qed

text \<open>The two paths that test the price: a Shopee listing and a merged AI entry never have
  a price that is \<^verbatim>\<open><= 0\<close>.\<close>

lemma shopee_listing_price:
  "shopee_listing env item data = Inr (Some r) \<Longrightarrow> \<not> fle0 (unit_price r)"
  by (auto simp: shopee_listing_def split: sum.splits if_splits)

lemma fetch_price_shopee_price:
  "fetch_price_shopee env item = Some r \<Longrightarrow> \<not> fle0 (unit_price r)"
  by (auto simp: fetch_price_shopee_def split: sum.splits dest: shopee_listing_price)

lemma ai_merge_price:
  assumes "\<forall>q\<in>set results. \<not> fle0 (unit_price q)" and "ai_merge qty results ss = Inr rs"
  shows "\<forall>q\<in>set rs. \<not> fle0 (unit_price q)"
proof -
  have "\<not> fle0 (unit_price q)"
    if "\<not> fle0 (price_or_zero s)" and "ai_quote s (price_or_zero s) qty = Inr q" for s q
    using that ai_quote_ok [of s "price_or_zero s" qty] by auto
  then show ?thesis using assms by (rule ai_merge_all)
qed



section \<open>Properties of the handler\<close>

lemma get_stores_valid:
  assumes "read_request body = Inr (item, qty)" and "item \<noteq> []"
  shows "get_stores env body =
           (case aggregate env item qty of
              (Inl e, calls) \<Rightarrow> (ServerError e, calls)
            | (Inr results, calls) \<Rightarrow> (Stores (py_slice results 0 3), calls))"
  using assms by (simp add: get_stores_def)



lemma aggregate_length: "fst (aggregate env item qty) = Inr rs \<Longrightarrow> length rs \<le> 3"
proof -
  assume a: "fst (aggregate env item qty) = Inr rs"
  obtain results calls where l: "adapter_loop env item qty fetch_funcs [] [] = (results, calls)"
    by (cases "adapter_loop env item qty fetch_funcs [] []")
  have len: "length results \<le> 3"
    using adapter_loop_length [of "[]" env item qty fetch_funcs "[]"] l by simp
  show ?thesis
  proof (cases "length results < 3")
    case True
    then have "ai_fallback env item qty results = Inr rs" using a l by (simp add: aggregate_def)
    then obtain ss where "ai_merge qty results ss = Inr rs"
      by (auto simp: ai_fallback_def Let_def split: sum.splits)
    with len show ?thesis by (rule ai_merge_length)
  next
    case False
    then have "rs = results" using a l by (simp add: aggregate_def)
    with len show ?thesis by simp
  qed
qed

lemma get_stores_Stores:
  "fst (get_stores env body) = Stores qs \<Longrightarrow>
     \<exists>item qty rs. read_request body = Inr (item, qty) \<and> item \<noteq> [] \<and>
        fst (aggregate env item qty) = Inr rs \<and> qs = take 3 rs"
  by (auto simp: get_stores_def py_slice_0_3 split: sum.splits prod.splits if_splits)






section \<open>The handler on concrete requests\<close>

lemmas str_defs = ascii_def py_strip_def py_isspace_def drop_underscores_def take_sign_def lower_def
  parse_decimal_def is_digit_def parse_exponent_def digits_value_def pow10_def float_of_str_def int_of_str_def
  py_split_def py_replace_def first_item_def py_rfind_def py_slice_def slice_bound_def

lemmas req_defs = read_request_def read_item_def read_quantity_def py_or_def body_nails_def
  body_nails_qty_def body_blank_def body_blank_qty_def

lemmas shop_defs = fetch_funcs_def env_offline_def fetch_price_wilcon_def fetch_price_ace_def
  fetch_price_shopee_def priced_page_def parse_price_text_def price_prefix_def peso_sign_def
  name_separator_def shopee_reply_def shopee_listing_def format_name_def stamp_def Let_def

lemmas quote_defs = wilcon_quote_def ace_quote_def shopee_quote_def ai_quote_defaults_def

lemma read_nails: "read_request body_nails = Inr (ascii ''nails'', 1)"
  by (simp add: req_defs str_defs)



lemma nails_nonempty: "ascii ''nails'' \<noteq> []"
  by (simp add: ascii_def)


lemma all_shops_adapters:
  "adapter_loop env_all_shops (ascii ''nails'') 1 fetch_funcs [] [] =
     ([wilcon_quote (Fin 10) 1 (Fin 10), ace_quote (Fin (25 / 2)) 1 (Fin (25 / 2)),
       shopee_quote (Fin (2469 / 2)) 1 (Fin (2469 / 2))],
      [CallWilcon (ascii ''nails''), CallAce (ascii ''nails''), CallShopee (ascii ''nails'')])"
  by (simp add: env_all_shops_def shop_defs quote_defs str_defs)

lemma all_shops_stores:
  "get_stores env_all_shops body_nails =
     (Stores [wilcon_quote (Fin 10) 1 (Fin 10), ace_quote (Fin (25 / 2)) 1 (Fin (25 / 2)),
              shopee_quote (Fin (2469 / 2)) 1 (Fin (2469 / 2))],
      [CallWilcon (ascii ''nails''), CallAce (ascii ''nails''), CallShopee (ascii ''nails'')])"
  by (simp add: get_stores_def read_nails nails_nonempty aggregate_def all_shops_adapters
      py_slice_0_3)

lemma wilcon_priced_adapters:
  assumes "parse_price_text pt = Inr price"
  shows "adapter_loop (env_offline\<lparr>wilcon_site := (\<lambda>item. priced_page pt)\<rparr>) (ascii ''nails'')
           qty fetch_funcs [] [] =
         ([wilcon_quote price qty (fmul_int price qty)],
          [CallWilcon (ascii ''nails''), CallAce (ascii ''nails''), CallShopee (ascii ''nails'')])"
  using assms
  by (simp add: fetch_funcs_def env_offline_def fetch_price_wilcon_def fetch_price_ace_def
      fetch_price_shopee_def priced_page_def stamp_def Let_def wilcon_quote_def ascii_def)

lemma offline_fallback: "ai_fallback (env_offline\<lparr>wilcon_site := w\<rparr>) item qty results = Inr results"
  by (simp add: ai_fallback_def env_offline_def extract_ai_stores_def py_strip_def py_rfind_def)

lemma wilcon_priced_stores:
  assumes "parse_price_text pt = Inr price" and "read_request body = Inr (ascii ''nails'', qty)"
  shows "get_stores (env_offline\<lparr>wilcon_site := (\<lambda>item. priced_page pt)\<rparr>) body =
         (Stores [wilcon_quote price qty (fmul_int price qty)], all_four_calls)"
  using assms(2)
  by (simp add: get_stores_def nails_nonempty aggregate_def wilcon_priced_adapters [OF assms(1)]
      offline_fallback py_slice_0_3 all_four_calls_def)

lemma price_text_zero: "parse_price_text (ascii ''0.00'') = Inr (Fin 0)"
  by (simp add: parse_price_text_def price_prefix_def str_defs)



lemma brackets_reversed:
  "py_find (ascii '']x['') 91 = 2 \<and> py_rfind (ascii '']x['') 93 = 0 \<and> py_strip (ascii '']x['') = ascii '']x[''"
  by (simp add: str_defs)



section \<open>The claims\<close>

text \<open>
  Claim C1: a quote whose parsed price is 0 or negative, from any adapter or AI entry, is
  left out of the result list, so every quote of the result has a unit price above 0.

  \<^verbatim>\<open>fetch_price_shopee\<close> returns \<^verbatim>\<open>None\<close> on \<^verbatim>\<open>price <= 0\<close> and the AI loop skips such an
  entry, but \<^verbatim>\<open>fetch_price_wilcon\<close> and \<^verbatim>\<open>fetch_price_ace\<close> have no such test. With the
  price text \<^verbatim>\<open>0.00\<close> on Wilcon's first product card and nothing else answering, the
  request \<^verbatim>\<open>{"item": "nails"}\<close> is answered with one Wilcon quote of unit price 0.
\<close>

theorem wilcon_zero_price_is_listed:
  "get_stores env_wilcon_free body_nails = (Stores [wilcon_quote (Fin 0) 1 (Fin 0)], all_four_calls)
   \<and> \<not> fgt0 (unit_price (wilcon_quote (Fin 0) 1 (Fin 0)))"
  using wilcon_priced_stores [OF price_text_zero read_nails]
  by (simp add: env_wilcon_free_def wilcon_quote_def)










text \<open>
  Claim C6: a returned result list has at most three quotes. The bound holds already for
  the list built by the two loops together, so the final \<^verbatim>\<open>results[:3]\<close> drops nothing.
\<close>

theorem result_list_at_most_three:
  "(fst (get_stores env body) = Stores qs \<longrightarrow> length qs \<le> 3) \<and>
   (fst (aggregate env item qty) = Inr rs \<longrightarrow> length rs \<le> 3 \<and> py_slice rs 0 3 = rs)"
proof -
  have "fst (get_stores env body) = Stores qs \<longrightarrow> length qs \<le> 3"
    using get_stores_Stores [of env body qs] by auto
  moreover have "fst (aggregate env item qty) = Inr rs \<longrightarrow> length rs \<le> 3 \<and> py_slice rs 0 3 = rs"
    using aggregate_length [of env item qty rs] by (simp add: py_slice_0_3)
  ultimately show ?thesis by blast
qed

text \<open>
  Claim C6 at a concrete request.
\<close>

theorem result_list_at_most_three_witness:
  "fst (get_stores env_all_shops body_nails) =
     Stores [wilcon_quote (Fin 10) 1 (Fin 10), ace_quote (Fin (25 / 2)) 1 (Fin (25 / 2)),
             shopee_quote (Fin (2469 / 2)) 1 (Fin (2469 / 2))]
   \<and> fst (aggregate env_all_shops (ascii ''nails'') 1) =
     Inr [wilcon_quote (Fin 10) 1 (Fin 10), ace_quote (Fin (25 / 2)) 1 (Fin (25 / 2)),
          shopee_quote (Fin (2469 / 2)) 1 (Fin (2469 / 2))]
   \<and> length [wilcon_quote (Fin 10) 1 (Fin 10), ace_quote (Fin (25 / 2)) 1 (Fin (25 / 2)),
             shopee_quote (Fin (2469 / 2)) 1 (Fin (2469 / 2))] \<le> 3"
  using result_list_at_most_three [of env_all_shops body_nails
      "[wilcon_quote (Fin 10) 1 (Fin 10), ace_quote (Fin (25 / 2)) 1 (Fin (25 / 2)),
        shopee_quote (Fin (2469 / 2)) 1 (Fin (2469 / 2))]" "ascii ''nails''" 1
      "[wilcon_quote (Fin 10) 1 (Fin 10), ace_quote (Fin (25 / 2)) 1 (Fin (25 / 2)),
        shopee_quote (Fin (2469 / 2)) 1 (Fin (2469 / 2))]"]
  by (simp add: all_shops_stores aggregate_def all_shops_adapters)

text \<open>
  Claim C7: the scraping adapters parse the price text U+20B1 \<^verbatim>\<open>1,234.50\<close> (currency sign,
  thousands separator) to 1234.50, and the Shopee adapter turns the raw price 123450000 into
  1234.50.

  The text that the source file removes before parsing is not the currency sign U+20B1 but
  the three characters U+00E2 U+201A U+00B1, so the sign stays, \<^verbatim>\<open>float\<close> raises ValueError
  and both scraping adapters return \<^verbatim>\<open>None\<close>. The same digits behind the three-character
  text, or behind nothing, parse to 1234.50, and so does the Shopee price.
\<close>

theorem peso_price_text_not_parsed:
  "parse_price_text (peso_sign @ ascii ''1,234.50'') = Inl ValueError
   \<and> fetch_price_wilcon env_peso (ascii ''nails'') = None
   \<and> fetch_price_ace env_peso (ascii ''nails'') = None
   \<and> parse_price_text (price_prefix @ ascii ''1,234.50'') = Inr (Fin (2469 / 2))
   \<and> parse_price_text (ascii ''1,234.50'') = Inr (Fin (2469 / 2))
   \<and> shopee_price (JInt 123450000) = Inr (Fin (2469 / 2))"
proof -
  have p: "parse_price_text (peso_sign @ ascii ''1,234.50'') = Inl ValueError"
    by (simp add: parse_price_text_def price_prefix_def peso_sign_def str_defs)
  have w: "fetch_price_wilcon env_peso (ascii ''nails'') = None"
    by (simp add: fetch_price_wilcon_def env_peso_def priced_page_def p)
  have a: "fetch_price_ace env_peso (ascii ''nails'') = None"
    by (simp add: fetch_price_ace_def env_peso_def priced_page_def p)
  have m: "parse_price_text (price_prefix @ ascii ''1,234.50'') = Inr (Fin (2469 / 2))"
    by (simp add: parse_price_text_def price_prefix_def str_defs)
  have n: "parse_price_text (ascii ''1,234.50'') = Inr (Fin (2469 / 2))"
    by (simp add: parse_price_text_def price_prefix_def str_defs)
  have s: "shopee_price (JInt 123450000) = Inr (Fin (2469 / 2))"
    by simp
  show ?thesis using p w a m n s by blast
qed

text \<open>
  Claim C8: a request whose item is empty or whitespace-only is answered with the input
  error (400) before any adapter or AI call.

  As stated this fails on the handler: the quantity is coerced before the item is tested,
  so the request \<^verbatim>\<open>{"item": "  ", "quantity": "abc"}\<close> is answered with the ValueError of
  \<^verbatim>\<open>int\<close> (500), not with the input error.
\<close>

theorem blank_item_counterexample:
  "read_item (py_or (body_blank_qty (JStr (ascii ''abc''))) (JObj [])) = Inr []
   \<and> get_stores env_all_shops (body_blank_qty (JStr (ascii ''abc''))) = (ServerError ValueError, [])"
  by (simp add: get_stores_def req_defs str_defs)

text \<open>
  Claim C8 as the handler has it: when the item read from the request is empty after
  stripping, no adapter and no AI call is made; the answer is the input error (400,
  \<^verbatim>\<open>Item is required\<close>) when the quantity can be coerced, and otherwise the exception of the
  coercion (500).
\<close>

theorem blank_item_stops_before_any_call:
  assumes "read_item (py_or body (JObj [])) = Inr []"
  shows "snd (get_stores env body) = []
       \<and> fst (get_stores env body) =
           (case read_quantity (py_or body (JObj [])) of
              Inl e \<Rightarrow> ServerError e
            | Inr qty \<Rightarrow> BadRequest (ascii ''Item is required''))"
  using assms by (simp add: get_stores_def read_request_def Let_def split: sum.splits)

text \<open>
  Claim C8 at a concrete request.
\<close>

theorem blank_item_stops_before_any_call_witness:
  "read_item (py_or body_blank (JObj [])) = Inr []
   \<and> get_stores env_all_shops body_blank = (BadRequest (ascii ''Item is required''), [])"
proof -
  have i: "read_item (py_or body_blank (JObj [])) = Inr []"
    by (simp add: req_defs str_defs)
  have q: "read_quantity (py_or body_blank (JObj [])) = Inr 1"
    by (simp add: req_defs str_defs)
  from blank_item_stops_before_any_call [OF i, of env_all_shops] q
  have "get_stores env_all_shops body_blank = (BadRequest (ascii ''Item is required''), [])"
    by (simp add: prod_eq_iff)
  with i show ?thesis by simp
qed

text \<open>
  Claim C9: when the reply text holds both \<^verbatim>\<open>[\<close> and \<^verbatim>\<open>]\<close> but the last \<^verbatim>\<open>]\<close> is not after the
  first \<^verbatim>\<open>[\<close>, nothing is parsed: the extraction gives the empty list, whatever
  \<^verbatim>\<open>json.loads\<close> would do, and the AI step returns the results unchanged, without error.
\<close>

theorem reversed_brackets_give_no_quotes:
  assumes "91 \<in> set ai_str" and "93 \<in> set ai_str" and "py_rfind ai_str 93 \<le> py_find ai_str 91"
  shows "extract_ai_stores loads ai_str = Inr []
       \<and> (openai_chat env item = Inr (Some reply) \<and> py_strip reply = ai_str
          \<longrightarrow> ai_fallback env item qty results = Inr results)"
proof -
  have x: "extract_ai_stores f ai_str = Inr []" for f
    using assms(3) by (simp add: extract_ai_stores_def Let_def)
  show ?thesis using x [of loads] x [of "json_loads env"] by (auto simp: ai_fallback_def Let_def)
qed

text \<open>
  Claim C9 at a concrete request.
\<close>

theorem reversed_brackets_give_no_quotes_witness:
  "91 \<in> set (ascii '']x['') \<and> 93 \<in> set (ascii '']x['')
   \<and> py_rfind (ascii '']x['') 93 \<le> py_find (ascii '']x['') 91
   \<and> extract_ai_stores (\<lambda>text. None) (ascii '']x['') = Inr []
   \<and> ai_fallback (env_reply (ascii '']x['')) (ascii ''nails'') 1 [] = Inr []"
proof -
  have m: "91 \<in> set (ascii '']x['')" "93 \<in> set (ascii '']x['')" by (simp_all add: ascii_def)
  have o: "py_rfind (ascii '']x['') 93 \<le> py_find (ascii '']x['') 91"
    by (simp add: brackets_reversed)
  have e: "openai_chat (env_reply (ascii '']x['')) (ascii ''nails'') = Inr (Some (ascii '']x[''))"
    by (simp add: env_reply_def env_offline_def)
  from reversed_brackets_give_no_quotes [OF m o, of "\<lambda>text. None" "env_reply (ascii '']x['')"
      "ascii ''nails''" "ascii '']x[''" 1 "[]"] e brackets_reversed
  have "extract_ai_stores (\<lambda>text. None) (ascii '']x['') = Inr []
        \<and> ai_fallback (env_reply (ascii '']x['')) (ascii ''nails'') 1 [] = Inr []"
    by simp
  with m o show ?thesis by simp
qed



end
